theory Spec2Isabelle
  imports Complex_Main "HOL-Library.Multiset" "HOL-Library.Log_Nat"
begin

section \<open>Data model\<close>

text \<open>
  The repository is a loan-origination backend written in JavaScript (Express and
  Mongoose). This theory embeds its two computational parts: the amortization code of
  the \<open>Loan\<close> model (\<open>totalRepayment\<close>, \<open>monthlyPayment\<close>,
  \<open>generateRepaymentSchedule\<close>) and the credit-report handlers of the loan routes.

  JavaScript numbers are IEEE doubles. A number is modelled as a rational, and a value
  of type \<open>rat option\<close> is a JavaScript number whose \<open>None\<close> stands for a
  non-finite result (\<open>NaN\<close> or an infinity), which is what a division by zero yields
  in JavaScript.

  The amortization code and the first reading of the scoring code take the arithmetic
  of the source as exact: they say what the formulas of the code compute, and the code's
  doubles follow them up to rounding. Rounding matters where the code rounds a sum to an
  integer, so the first scoring function is embedded a second time with every operation
  rounded to a double (\<open>calculateCreditScoreD\<close>); that embedding gives the integer
  the code returns.
\<close>

subsection \<open>Calendar dates\<close>

text \<open>
  A JavaScript \<open>Date\<close> read in local time: \<open>month\<close> is zero-based as
  \<open>getMonth()\<close> returns it, \<open>day\<close> is the day of the month, and \<open>msOfDay\<close> is
  the time within the day, which \<open>setMonth\<close> leaves alone. A local time that a
  daylight-saving change skips is moved by \<open>Date\<close>; that shift of the time of
  day is outside the model, which follows the year, the month and the day.
\<close>

record date =
  year :: int
  month :: nat
  day :: nat
  msOfDay :: nat

definition isLeapYear :: "int \<Rightarrow> bool" where
  "isLeapYear y = ((y mod 4 = 0 \<and> y mod 100 \<noteq> 0) \<or> y mod 400 = 0)"

definition daysInMonth :: "int \<Rightarrow> nat \<Rightarrow> nat" where
  "daysInMonth y m =
     (if m = 1 then (if isLeapYear y then 29 else 28)
      else if m = 3 \<or> m = 5 \<or> m = 8 \<or> m = 10 then 30
      else 31)"

text \<open>
  \<open>Date.prototype.setMonth(m)\<close> builds the date from the day number of the first of
  month \<open>m\<close> (months past December run into the following years) plus the old day of
  the month minus one. A day of the month that the target month does not have therefore
  runs over into the next month: \<open>rollDay\<close> carries it.
\<close>

function rollDay :: "int \<Rightarrow> nat \<Rightarrow> nat \<Rightarrow> nat \<Rightarrow> date" where
  "rollDay y m d t =
     (if daysInMonth y m < d
      then rollDay (if m = 11 then y + 1 else y) ((m + 1) mod 12) (d - daysInMonth y m) t
      else \<lparr>year = y, month = m, day = d, msOfDay = t\<rparr>)"
  by pat_completeness auto
termination
  by (relation "measure (\<lambda>(y, m, d, t). d)") (auto simp: daysInMonth_def)

declare rollDay.simps [simp del]

definition setMonth :: "date \<Rightarrow> nat \<Rightarrow> date" where
  "setMonth d m = rollDay (year d + int (m div 12)) (m mod 12) (day d) (msOfDay d)"

text \<open>
  The number of a date's calendar month, counted through the years: advancing a date
  by \<open>i\<close> calendar months adds \<open>i\<close> to it.
\<close>

definition monthIndex :: "date \<Rightarrow> int" where
  "monthIndex d = year d * 12 + int (month d)"

text \<open>The order of two dates in time, as \<open>Date\<close> values compare.\<close>

definition dateLess :: "date \<Rightarrow> date \<Rightarrow> bool" where
  "dateLess a b =
     (year a < year b \<or> (year a = year b \<and>
       (month a < month b \<or> (month a = month b \<and>
         (day a < day b \<or> (day a = day b \<and> msOfDay a < msOfDay b))))))"

subsection \<open>Loans\<close>

text \<open>
  An entry of \<open>repaymentSchedule\<close>. The amount is the JavaScript number the loan's
  \<open>monthlyPayment\<close> virtual returned.
\<close>

record installment =
  dueDate :: date
  amount :: "rat option"
  istatus :: string

text \<open>
  The six values the schema allows for \<open>status\<close>, and their spelling.
\<close>

datatype loanStatus = Pending | Approved | Rejected | Active | Completed | Defaulted

fun statusName :: "loanStatus \<Rightarrow> string" where
  "statusName Pending = ''Pending''"
| "statusName Approved = ''Approved''"
| "statusName Rejected = ''Rejected''"
| "statusName Active = ''Active''"
| "statusName Completed = ''Completed''"
| "statusName Defaulted = ''Defaulted''"

text \<open>
  An entry of \<open>paymentHistory\<close>. The first credit-report handler reads the entry's
  \<open>status\<close> property, the second compares the entry itself with a string, so both
  shapes are kept: an object with a \<open>status\<close>, or a bare string.
\<close>

datatype payment = PaymentObj string | PaymentStr string

text \<open>
  A loan document. \<open>paymentHistory\<close>, \<open>creditLimit\<close> and \<open>loanType\<close> are not
  declared by the schema, the handlers read them guarded (\<open>|| []\<close>, \<open>|| 0\<close>), and
  \<open>None\<close> is the absent property. \<open>loanAmount\<close> is required by the schema, so the
  handlers' \<open>loan.loanAmount || 0\<close> is the amount itself.
\<close>

record loan =
  loanId :: string
  loanAmount :: rat
  loanPurpose :: string
  loanTerm :: nat
  interestRate :: rat
  lenderName :: string
  status :: loanStatus
  repaymentSchedule :: "installment list"
  paymentHistory :: "payment list option"
  creditLimit :: "rat option"
  loanType :: "string option"

text \<open>The field constraints of \<open>LoanSchema\<close> that Mongoose validates on save.\<close>

definition loanPurposes :: "string list" where
  "loanPurposes =
     [''Home'', ''Car'', ''Education'', ''Business'', ''Personal'', ''Medical'',
      ''Debt Consolidation'']"

definition validLoan :: "loan \<Rightarrow> bool" where
  "validLoan l =
     (1000 \<le> loanAmount l \<and> loanAmount l \<le> 1000000
      \<and> loanPurpose l \<in> set loanPurposes
      \<and> 1 \<le> loanTerm l \<and> loanTerm l \<le> 60
      \<and> 1 \<le> interestRate l \<and> interestRate l \<le> 25)"

section \<open>Amortization\<close>

text \<open>
  The virtual \<open>totalRepayment\<close>. The quotient has divisor \<open>(1 + r)^n - 1\<close>; where
  that is zero JavaScript yields \<open>NaN\<close> or an infinity, and the product with the term
  stays non-finite. The arithmetic is exact. For a rate within the schema's range of 1 to
  25 the doubles of the code follow it closely; for a rate close to zero the code's
  \<open>Math.pow(1 + r, n) - 1\<close> loses its digits to cancellation, and the code's result
  is far from this value.
\<close>

definition totalRepayment :: "loan \<Rightarrow> rat option" where
  "totalRepayment l =
     (let monthlyInterestRate = interestRate l / 100 / 12;
          divisor = (1 + monthlyInterestRate) ^ loanTerm l - 1
      in if divisor = 0 then None
         else Some (loanAmount l *
                (monthlyInterestRate * (1 + monthlyInterestRate) ^ loanTerm l) / divisor
                * of_nat (loanTerm l)))"

text \<open>The virtual \<open>monthlyPayment\<close>: \<open>this.totalRepayment / this.loanTerm\<close>.\<close>

definition monthlyPayment :: "loan \<Rightarrow> rat option" where
  "monthlyPayment l =
     (case totalRepayment l of
        None \<Rightarrow> None
      | Some t \<Rightarrow> if loanTerm l = 0 then None else Some (t / of_nat (loanTerm l)))"

text \<open>
  The loop of \<open>generateRepaymentSchedule\<close>, \<open>for (let i = 1; i <= this.loanTerm; i++)\<close>,
  pushing one installment per round. \<open>new Date()\<close> is the parameter \<open>startDate\<close>.
\<close>

definition mkInstallment :: "date \<Rightarrow> rat option \<Rightarrow> nat \<Rightarrow> installment" where
  "mkInstallment startDate mp i =
     \<lparr>dueDate = setMonth startDate (month startDate + i), amount = mp,
      istatus = ''Pending''\<rparr>"

function scheduleLoop ::
  "date \<Rightarrow> rat option \<Rightarrow> nat \<Rightarrow> nat \<Rightarrow> installment list \<Rightarrow> installment list" where
  "scheduleLoop startDate mp n i schedule =
     (if i \<le> n
      then scheduleLoop startDate mp n (Suc i) (schedule @ [mkInstallment startDate mp i])
      else schedule)"
  by pat_completeness auto
termination
  by (relation "measure (\<lambda>(startDate, mp, n, i, schedule). Suc n - i)") auto

declare scheduleLoop.simps [simp del]

definition generateRepaymentSchedule :: "date \<Rightarrow> loan \<Rightarrow> loan" where
  "generateRepaymentSchedule startDate l =
     l\<lparr>repaymentSchedule := scheduleLoop startDate (monthlyPayment l) (loanTerm l) 1 []\<rparr>"

text \<open>
  The payment formula in the words of the specification:
  \<open>principal \<cdot> r\<cdot>(1+r)^n / ((1+r)^n - 1)\<close>.
\<close>

definition annuityFormula :: "rat \<Rightarrow> rat \<Rightarrow> nat \<Rightarrow> rat" where
  "annuityFormula P r n = P * (r * (1 + r) ^ n) / ((1 + r) ^ n - 1)"

text \<open>Rounding to two decimals, halves upwards.\<close>

definition round2 :: "rat \<Rightarrow> rat" where
  "round2 x = of_int \<lfloor>x * 100 + 1 / 2\<rfloor> / 100"

text \<open>The loan of the specification's example: 12000 at 8.5 percent over 12 months.\<close>

definition exampleLoan :: loan where
  "exampleLoan =
     \<lparr>loanId = ''L1'', loanAmount = 12000, loanPurpose = ''Home'', loanTerm = 12,
      interestRate = 17 / 2, lenderName = ''General Application'', status = Pending,
      repaymentSchedule = [], paymentHistory = None, creditLimit = None,
      loanType = None\<rparr>"

text \<open>The same loan with an interest rate of zero.\<close>

definition zeroRateLoan :: loan where
  "zeroRateLoan = exampleLoan\<lparr>interestRate := 0\<rparr>"

text \<open>A loan over two months, and the start date 31 January 2025, at midnight.\<close>

definition twoMonthLoan :: loan where
  "twoMonthLoan = exampleLoan\<lparr>loanTerm := 2\<rparr>"

definition jan31 :: date where
  "jan31 = \<lparr>year = 2025, month = 0, day = 31, msOfDay = 0\<rparr>"

section \<open>Credit report\<close>

subsection \<open>JavaScript helpers\<close>

text \<open>
  A quotient of two numbers: dividing by zero gives \<open>NaN\<close> or an infinity, here
  \<open>None\<close>.
\<close>

definition jsDivide :: "rat \<Rightarrow> rat \<Rightarrow> rat option" where
  "jsDivide x y = (if y = 0 then None else Some (x / y))"

text \<open>\<open>Math.round\<close>: the nearest integer, halves towards plus infinity.\<close>

definition jsRound :: "rat \<Rightarrow> int" where
  "jsRound x = \<lfloor>x + 1 / 2\<rfloor>"

text \<open>\<open>x || 0\<close> for an optional number, \<open>h || []\<close> for an optional array.\<close>

definition orZero :: "rat option \<Rightarrow> rat" where
  "orZero x = (case x of None \<Rightarrow> 0 | Some v \<Rightarrow> v)"

definition orEmpty :: "'a list option \<Rightarrow> 'a list" where
  "orEmpty h = (case h of None \<Rightarrow> [] | Some xs \<Rightarrow> xs)"

text \<open>
  \<open>p.status\<close> of a payment-history entry: a string has no such property.
\<close>

fun paymentStatus :: "payment \<Rightarrow> string option" where
  "paymentStatus (PaymentObj s) = Some s"
| "paymentStatus (PaymentStr s) = None"

text \<open>The decimal numeral of an integer, as a template literal prints it.\<close>

function showNat :: "nat \<Rightarrow> string" where
  "showNat n =
     (if n < 10 then [char_of (48 + n)]
      else showNat (n div 10) @ [char_of (48 + n mod 10)])"
  by pat_completeness auto
termination
  by (relation "measure (\<lambda>n. n)") auto

declare showNat.simps [simp del]

definition showInt :: "int \<Rightarrow> string" where
  "showInt i = (if i < 0 then ''-'' @ showNat (nat (- i)) else showNat (nat i))"

subsection \<open>Double arithmetic\<close>

text \<open>
  The doubles: numbers with a significand of 53 bits. \<open>binExponent x\<close> is the
  exponent \<open>e\<close> with \<open>2^e \<le> |x| < 2^(e + 1)\<close>, found from the bit lengths of
  numerator and denominator.
\<close>

definition binExponent :: "rat \<Rightarrow> int" where
  "binExponent x =
     (let a = fst (quotient_of \<bar>x\<bar>);
          b = snd (quotient_of \<bar>x\<bar>);
          d = bitlen a - bitlen b
      in if 2 powi d \<le> \<bar>x\<bar> then d else d - 1)"

text \<open>The nearest integer, a tie going to the even one.\<close>

definition roundHalfEven :: "rat \<Rightarrow> int" where
  "roundHalfEven x =
     (let f = \<lfloor>x\<rfloor>;
          r = x - of_int f
      in if r < 1 / 2 then f
         else if 1 / 2 < r then f + 1
         else if even f then f else f + 1)"

text \<open>
  The double nearest to a number. The doubles around \<open>x\<close> are the multiples of
  \<open>2^(e - 52)\<close>; below \<open>2^(-1022)\<close> the spacing stays \<open>2^(-1074)\<close>, the
  subnormal numbers. A result of \<open>2^1024\<close> or more is an infinity in JavaScript
  and is not modelled: it stays the rounded number here.
\<close>

definition toDouble :: "rat \<Rightarrow> rat" where
  "toDouble x =
     (if x = 0 then 0
      else let e = max (binExponent x) (- 1022);
               q = 2 powi (e - 52)
           in of_int (roundHalfEven (x / q)) * q)"

text \<open>The operators \<open>+\<close>, \<open>-\<close>, \<open>*\<close> and \<open>/\<close> on doubles.\<close>

definition fadd :: "rat \<Rightarrow> rat \<Rightarrow> rat" where
  "fadd x y = toDouble (x + y)"

definition fsub :: "rat \<Rightarrow> rat \<Rightarrow> rat" where
  "fsub x y = toDouble (x - y)"

definition fmul :: "rat \<Rightarrow> rat \<Rightarrow> rat" where
  "fmul x y = toDouble (x * y)"

definition fdivide :: "rat \<Rightarrow> rat \<Rightarrow> rat option" where
  "fdivide x y = (if y = 0 then None else Some (toDouble (x / y)))"

subsection \<open>The first scoring function\<close>

text \<open>
  \<open>calculateCreditScore\<close> of the first \<open>/credit-report\<close> handler, read over
  exact numbers. Each of the four entries of \<open>scoreFactors\<close> has a weight and a
  value; the values are computed below, one definition per assignment of the source.
  The factor values of the code are these up to the rounding of doubles; the integer
  score of the code is that of \<open>calculateCreditScoreD\<close> further down, which differs
  from this one where the rounded sum lies on or next to a tie.
\<close>

record scoreFactor =
  weight :: rat
  factorValue :: "rat option"

text \<open>Payment history: the mean over the loans of paid entries by all entries.\<close>

definition paymentHistoryValue :: "loan list \<Rightarrow> rat option" where
  "paymentHistoryValue loans =
     jsDivide
       (foldl (\<lambda>sum loan.
          let paid = length (filter (\<lambda>p. paymentStatus p = Some ''paid'')
                               (orEmpty (paymentHistory loan)));
              total = (if length (orEmpty (paymentHistory loan)) = 0 then 1
                       else length (orEmpty (paymentHistory loan)))
          in sum + of_nat paid / of_nat total) 0 loans)
       (of_nat (length loans))"

text \<open>Credit utilization.\<close>

definition totalDebtOf :: "loan list \<Rightarrow> rat" where
  "totalDebtOf loans =
     foldl (\<lambda>sum loan.
        if statusName (status loan) = ''Active'' then sum + loanAmount loan else sum)
       0 loans"

definition totalCreditOf :: "loan list \<Rightarrow> rat" where
  "totalCreditOf loans =
     foldl (\<lambda>sum loan.
        if statusName (status loan) = ''Active'' \<and> loanType loan = Some ''Credit''
        then sum + orZero (creditLimit loan) else sum)
       0 loans"

definition creditUtilizationValue :: "loan list \<Rightarrow> rat option" where
  "creditUtilizationValue loans =
     (let totalDebt = totalDebtOf loans;
          totalCredit = totalCreditOf loans;
          utilization = (if totalCredit > 0 then totalDebt / totalCredit else 0)
      in Some (1 - min utilization 1))"

text \<open>Credit mix: the size of the set of loan purposes, over five.\<close>

definition creditMixValue :: "loan list \<Rightarrow> rat option" where
  "creditMixValue loans = Some (of_nat (length (remdups (map loanPurpose loans))) / 5)"

text \<open>
  Account status: the object \<open>statusWeights\<close> with its four keys, looked up by the
  loan's status with \<open>|| 0\<close> for a missing key.
\<close>

definition statusWeights :: "(string \<times> rat) list" where
  "statusWeights = [(''Paid'', 5), (''Active'', 3), (''Defaulted'', - 10), (''Pending'', 1)]"

definition accountStatusValue :: "loan list \<Rightarrow> rat option" where
  "accountStatusValue loans =
     jsDivide
       (foldl (\<lambda>sum loan.
          sum + (case map_of statusWeights (statusName (status loan)) of
                   None \<Rightarrow> 0 | Some w \<Rightarrow> w)) 0 loans)
       (of_nat (length loans))"

definition scoreFactors :: "loan list \<Rightarrow> scoreFactor list" where
  "scoreFactors loans =
     [\<lparr>weight = 4 / 10, factorValue = paymentHistoryValue loans\<rparr>,
      \<lparr>weight = 2 / 10, factorValue = creditUtilizationValue loans\<rparr>,
      \<lparr>weight = 1 / 10, factorValue = creditMixValue loans\<rparr>,
      \<lparr>weight = 3 / 10, factorValue = accountStatusValue loans\<rparr>]"

definition baseScore :: rat where
  "baseScore = 300"

definition maxScore :: rat where
  "maxScore = 850"

text \<open>
  The reduction over \<open>Object.values(scoreFactors)\<close>. A value that is not a finite
  number makes the sum not a finite number.
\<close>

definition weightedScore :: "scoreFactor list \<Rightarrow> rat option" where
  "weightedScore fs =
     foldl (\<lambda>sum factor.
        case sum of
          None \<Rightarrow> None
        | Some s \<Rightarrow>
            (case factorValue factor of
               None \<Rightarrow> None
             | Some v \<Rightarrow> Some (s + v * weight factor * (maxScore - baseScore))))
       (Some 0) fs"

text \<open>
  The score. \<open>Math.round\<close>, \<open>Math.max\<close> and \<open>Math.min\<close> of \<open>NaN\<close> are
  \<open>NaN\<close>.
\<close>

definition calculateCreditScore :: "loan list \<Rightarrow> int option" where
  "calculateCreditScore loans =
     (case weightedScore (scoreFactors loans) of
        None \<Rightarrow> None
      | Some w \<Rightarrow> Some (min (max (jsRound (baseScore + w)) 300) 850))"

text \<open>The band of a score. Every comparison with \<open>NaN\<close> is false.\<close>

definition scoreRangeOf :: "int option \<Rightarrow> string" where
  "scoreRangeOf creditScore =
     (case creditScore of
        None \<Rightarrow> ''Poor''
      | Some s \<Rightarrow>
          if s \<ge> 720 then ''Excellent''
          else if s \<ge> 650 then ''Good''
          else if s \<ge> 580 then ''Fair''
          else ''Poor'')"

subsection \<open>The first credit-report handler\<close>

text \<open>
  The available credit of the first handler, with \<open>Math.max(0, ...)\<close> per loan.
\<close>

definition availableCreditOf :: "loan list \<Rightarrow> rat" where
  "availableCreditOf loans =
     foldl (\<lambda>sum loan.
        if statusName (status loan) = ''Active'' \<and> loanType loan = Some ''Credit''
        then sum + max 0 (orZero (creditLimit loan) - loanAmount loan) else sum)
       0 loans"

text \<open>
  The utilization string, with the quotient and the product rounded to doubles. It is
  computed only for a positive debt, so a zero divisor would give an infinity.
\<close>

definition creditUtilizationOf :: "rat \<Rightarrow> rat \<Rightarrow> string" where
  "creditUtilizationOf totalDebt availableCredit =
     (if totalDebt > 0
      then (case fdivide totalDebt (fadd totalDebt availableCredit) of
              None \<Rightarrow> ''Infinity''
            | Some q \<Rightarrow> showInt (jsRound (fmul q 100))) @ ''%''
      else ''0%'')"

text \<open>
  An entry of \<open>accounts\<close>. The properties that the handler formats from numbers and
  dates (\<open>payment\<close>, \<open>interestRate\<close>, \<open>opened\<close>, \<open>term\<close>,
  \<open>remainingTerm\<close>, \<open>nextPaymentDate\<close>) are left out.
\<close>

record account =
  accId :: string
  accName :: string
  accType :: string
  accStatus :: string
  accBalance :: rat
  accPaymentHistory :: "payment list"
  accCreditLimit :: rat
  accLoanType :: string

definition accountOf :: "loan \<Rightarrow> account" where
  "accountOf loan =
     \<lparr>accId = loanId loan,
      accName = (if lenderName loan = [] then ''Personal Loan'' else lenderName loan),
      accType = (if loanPurpose loan = [] then ''Personal Loan''
                 else loanPurpose loan @ '' Loan''),
      accStatus = statusName (status loan),
      accBalance = loanAmount loan,
      accPaymentHistory = orEmpty (paymentHistory loan),
      accCreditLimit = orZero (creditLimit loan),
      accLoanType = (case loanType loan of
                       None \<Rightarrow> ''Term''
                     | Some t \<Rightarrow> if t = [] then ''Term'' else t)\<rparr>"

text \<open>
  The response body. \<open>inquiries\<close> and \<open>publicRecords\<close> are sent for a user without
  loans only, \<open>lastUpdated\<close> only otherwise.
\<close>

record creditReport =
  creditScore :: "int option"
  scoreRange :: string
  accounts :: "account list"
  inquiries :: "string list option"
  publicRecords :: "string list option"
  creditUtilization :: string
  totalDebt :: rat
  availableCredit :: rat
  openAccounts :: nat
  lastUpdated :: "string option"

subsection \<open>The first scoring function in double arithmetic\<close>

text \<open>
  The same function, line by line, with the numbers that the code computes: a stored
  number is the double nearest to it, and each sum, difference, product and quotient
  is rounded to a double. The divisions are by the length of a payment history (or 1)
  and by a positive credit total, which are not zero, and by the number of loans.
\<close>

definition paymentHistoryValueD :: "loan list \<Rightarrow> rat option" where
  "paymentHistoryValueD loans =
     fdivide
       (foldl (\<lambda>sum loan.
          let paid = length (filter (\<lambda>p. paymentStatus p = Some ''paid'')
                               (orEmpty (paymentHistory loan)));
              total = (if length (orEmpty (paymentHistory loan)) = 0 then 1
                       else length (orEmpty (paymentHistory loan)))
          in fadd sum (toDouble (of_nat paid / of_nat total))) 0 loans)
       (of_nat (length loans))"

definition totalDebtD :: "loan list \<Rightarrow> rat" where
  "totalDebtD loans =
     foldl (\<lambda>sum loan.
        if statusName (status loan) = ''Active''
        then fadd sum (toDouble (loanAmount loan)) else sum)
       0 loans"

definition totalCreditD :: "loan list \<Rightarrow> rat" where
  "totalCreditD loans =
     foldl (\<lambda>sum loan.
        if statusName (status loan) = ''Active'' \<and> loanType loan = Some ''Credit''
        then fadd sum (toDouble (orZero (creditLimit loan))) else sum)
       0 loans"

definition creditUtilizationValueD :: "loan list \<Rightarrow> rat option" where
  "creditUtilizationValueD loans =
     (let totalDebt = totalDebtD loans;
          totalCredit = totalCreditD loans;
          utilization = (if totalCredit > 0 then toDouble (totalDebt / totalCredit) else 0)
      in Some (fsub 1 (min utilization 1)))"

definition creditMixValueD :: "loan list \<Rightarrow> rat option" where
  "creditMixValueD loans =
     fdivide (of_nat (length (remdups (map loanPurpose loans)))) 5"

definition accountStatusValueD :: "loan list \<Rightarrow> rat option" where
  "accountStatusValueD loans =
     fdivide
       (foldl (\<lambda>sum loan.
          fadd sum (case map_of statusWeights (statusName (status loan)) of
                      None \<Rightarrow> 0 | Some w \<Rightarrow> w)) 0 loans)
       (of_nat (length loans))"

text \<open>The weights are the doubles of the literals 0.4, 0.2, 0.1 and 0.3.\<close>

definition scoreFactorsD :: "loan list \<Rightarrow> scoreFactor list" where
  "scoreFactorsD loans =
     [\<lparr>weight = toDouble (4 / 10), factorValue = paymentHistoryValueD loans\<rparr>,
      \<lparr>weight = toDouble (2 / 10), factorValue = creditUtilizationValueD loans\<rparr>,
      \<lparr>weight = toDouble (1 / 10), factorValue = creditMixValueD loans\<rparr>,
      \<lparr>weight = toDouble (3 / 10), factorValue = accountStatusValueD loans\<rparr>]"

definition weightedScoreD :: "scoreFactor list \<Rightarrow> rat option" where
  "weightedScoreD fs =
     foldl (\<lambda>sum factor.
        case sum of
          None \<Rightarrow> None
        | Some s \<Rightarrow>
            (case factorValue factor of
               None \<Rightarrow> None
             | Some v \<Rightarrow>
                 Some (fadd s (fmul (fmul v (weight factor)) (fsub maxScore baseScore)))))
       (Some 0) fs"

definition calculateCreditScoreD :: "loan list \<Rightarrow> int option" where
  "calculateCreditScoreD loans =
     (case weightedScoreD (scoreFactorsD loans) of
        None \<Rightarrow> None
      | Some w \<Rightarrow> Some (min (max (jsRound (fadd baseScore w)) 300) 850))"

text \<open>
  The loans for which the double arithmetic above is the code's: the amount is within
  the schema's bounds and a credit limit is not negative, so that no sum passes the
  largest double.
\<close>

definition storedLoan :: "loan \<Rightarrow> bool" where
  "storedLoan l = (validLoan l \<and> 0 \<le> orZero (creditLimit l))"

text \<open>
  The handler of \<open>GET /loans/credit-report\<close>, from the loans that \<open>Loan.find\<close>
  returned. \<open>now\<close> is \<open>new Date().toISOString()\<close>. The score is the one of the
  double arithmetic, the integer that the code sends.
\<close>

definition getCreditReport :: "string \<Rightarrow> loan list \<Rightarrow> creditReport" where
  "getCreditReport now loans =
     (if length loans = 0
      then \<lparr>creditScore = Some 0, scoreRange = ''No Credit History'', accounts = [],
            inquiries = Some [], publicRecords = Some [], creditUtilization = ''0%'',
            totalDebt = 0, availableCredit = 0, openAccounts = 0, lastUpdated = None\<rparr>
      else \<lparr>creditScore = calculateCreditScoreD loans,
            scoreRange = scoreRangeOf (calculateCreditScoreD loans),
            accounts = map accountOf loans,
            inquiries = None, publicRecords = None,
            creditUtilization =
              creditUtilizationOf (totalDebtOf loans) (availableCreditOf loans),
            totalDebt = totalDebtOf loans,
            availableCredit = availableCreditOf loans,
            openAccounts = length loans,
            lastUpdated = Some now\<rparr>)"

subsection \<open>The second scoring function\<close>

text \<open>
  \<open>calculateCreditScore\<close> of the second \<open>/credit-report\<close> handler: the history
  entries are compared with the string \<open>paid\<close> themselves, the parts are scaled by
  400, 200 and 10 per purpose, and the status part is a sum of counts.
\<close>

definition calculateCreditScore2 :: "loan list \<Rightarrow> int option" where
  "calculateCreditScore2 loans =
     (if length loans = 0 then Some 0
      else
        let paymentHistoryScore =
              foldl (\<lambda>sum loan.
                let paid = length (filter (\<lambda>p. p = PaymentStr ''paid'')
                                     (orEmpty (paymentHistory loan)));
                    total = (if length (orEmpty (paymentHistory loan)) = 0 then 1
                             else length (orEmpty (paymentHistory loan)))
                in sum + of_nat paid / of_nat total) 0 loans
              / of_nat (length loans) * 400;
            totalDebt = totalDebtOf loans;
            totalCredit = totalCreditOf loans;
            utilization = (if totalCredit > 0 then totalDebt / totalCredit else 0);
            utilizationScore = (1 - min utilization 1) * 200;
            mixScore = of_nat (length (remdups (map loanPurpose loans))) * 10;
            paidLoans = length (filter (\<lambda>loan. statusName (status loan) = ''Paid'') loans);
            activeLoans = length (filter (\<lambda>loan. statusName (status loan) = ''Active'') loans);
            defaultedLoans =
              length (filter (\<lambda>loan. statusName (status loan) = ''Defaulted'') loans);
            statusScore = of_nat paidLoans * 5 + of_nat activeLoans * 3
                          - of_nat defaultedLoans * 10;
            score = paymentHistoryScore + utilizationScore + mixScore + statusScore
        in Some (min (max (jsRound score) 300) 850))"

subsection \<open>The factors in the words of the specification\<close>

text \<open>
  The ratio of one loan in the payment-history factor: paid entries by all entries, and
  zero for a loan without entries.
\<close>

definition historyRatio :: "loan \<Rightarrow> rat" where
  "historyRatio l =
     (let h = orEmpty (paymentHistory l)
      in if h = [] then 0
         else of_nat (length (filter (\<lambda>p. paymentStatus p = Some ''paid'') h))
              / of_nat (length h))"

text \<open>
  The contribution of one loan to the account-status factor, status by status, as the
  table \<open>statusWeights\<close> decides it for the six statuses of the schema.
\<close>

fun statusContribution :: "loanStatus \<Rightarrow> rat" where
  "statusContribution Active = 3"
| "statusContribution Defaulted = - 10"
| "statusContribution Pending = 1"
| "statusContribution Approved = 0"
| "statusContribution Rejected = 0"
| "statusContribution Completed = 0"

text \<open>
  The contribution of one loan to the available credit: the headroom of an active
  revolving account, and never less than zero.
\<close>

definition availableContribution :: "loan \<Rightarrow> rat" where
  "availableContribution l =
     (if status l = Active \<and> loanType l = Some ''Credit''
      then max 0 (orZero (creditLimit l) - loanAmount l) else 0)"

subsection \<open>Example loans\<close>

definition activeLoan :: loan where
  "activeLoan = exampleLoan\<lparr>status := Active\<rparr>"

definition completedLoan :: loan where
  "completedLoan = exampleLoan\<lparr>status := Completed\<rparr>"

definition defaultedLoan :: loan where
  "defaultedLoan = exampleLoan\<lparr>status := Defaulted\<rparr>"

text \<open>
  An active revolving account that owes more than its limit, and a car loan.
\<close>

definition overdrawnLoan :: loan where
  "overdrawnLoan =
     exampleLoan\<lparr>loanId := ''L2'', loanAmount := 5000, status := Active,
       creditLimit := Some 2000, loanType := Some ''Credit''\<rparr>"

definition carLoan :: loan where
  "carLoan =
     exampleLoan\<lparr>loanId := ''L3'', loanPurpose := ''Car'', status := Active,
       paymentHistory := Some [PaymentObj ''paid'', PaymentObj ''late'']\<rparr>"

text \<open>
  An active revolving account that owes 20100 on a limit of 22000: the exact weighted
  sum of its score lies on a tie, 815.5.
\<close>

definition tieLoan :: loan where
  "tieLoan =
     exampleLoan\<lparr>loanId := ''L4'', loanAmount := 20100, status := Active,
       creditLimit := Some 22000, loanType := Some ''Credit''\<rparr>"

text \<open>
  Three loans with two of three, three of five and four of five payments paid; the
  first is an active revolving account that owes 1052 on a limit of 1584.
\<close>

definition loanA :: loan where
  "loanA =
     exampleLoan\<lparr>loanId := ''A'', loanAmount := 1052, status := Active,
       paymentHistory := Some [PaymentObj ''paid'', PaymentObj ''paid'', PaymentObj ''late''],
       creditLimit := Some 1584, loanType := Some ''Credit''\<rparr>"

definition loanB :: loan where
  "loanB =
     exampleLoan\<lparr>loanId := ''B'', status := Pending,
       paymentHistory := Some [PaymentObj ''paid'', PaymentObj ''paid'', PaymentObj ''paid'',
         PaymentObj ''late'', PaymentObj ''late'']\<rparr>"

definition loanC :: loan where
  "loanC =
     exampleLoan\<lparr>loanId := ''C'', status := Approved,
       paymentHistory := Some [PaymentObj ''paid'', PaymentObj ''paid'', PaymentObj ''paid'',
         PaymentObj ''paid'', PaymentObj ''late'']\<rparr>"

section \<open>Properties of the amortization code\<close>

lemma power_minus_one_pos:
  fixes r :: rat
  assumes "0 < r" and "1 \<le> n"
  shows "0 < (1 + r) ^ n - 1"
proof -
  have "1 < 1 + r" using assms by simp
  moreover have "0 < n" using assms by simp
  ultimately have "1 < (1 + r) ^ n" by (rule one_less_power)
  then show ?thesis by simp
qed

lemma monthlyPayment_positive_rate:
  assumes "0 < interestRate l" and "1 \<le> loanTerm l"
  shows "monthlyPayment l =
           Some (annuityFormula (loanAmount l) (interestRate l / 100 / 12) (loanTerm l))"
proof -
  have r: "0 < interestRate l / 100 / 12" using assms by simp
  have d: "(1 + interestRate l / 100 / 12) ^ loanTerm l - 1 \<noteq> 0"
    using power_minus_one_pos [OF r assms(2)] by simp
  have n: "(of_nat (loanTerm l) :: rat) \<noteq> 0" using assms by simp
  show ?thesis
    using d n by (simp add: monthlyPayment_def totalRepayment_def annuityFormula_def Let_def)
qed

lemma exampleLoan_monthlyPayment:
  "map_option round2 (monthlyPayment exampleLoan) = Some (104664 / 100)"
  by (simp add: monthlyPayment_def totalRepayment_def exampleLoan_def Let_def power_divide
      round2_def floor_eq_iff)

lemma exampleLoan_totalRepayment:
  "map_option round2 (totalRepayment exampleLoan) = Some (1255965 / 100)"
  by (simp add: totalRepayment_def exampleLoan_def Let_def power_divide round2_def
      floor_eq_iff)

text \<open>
  Claim C1, as amended. For every loan that passes the schema's validation (interest
  rate from 1 to 25, term from 1 to 60 months) \<open>monthlyPayment\<close> is the annuity
  formula at the monthly rate \<open>interestRate / 100 / 12\<close>. For 12000 at 8.5 percent
  over 12 months the monthly payment is 1046.64 and the total repayment 12559.65, both
  rounded to two decimals.
\<close>

theorem monthlyPayment_annuity:
  "(validLoan l \<longrightarrow>
      monthlyPayment l =
        Some (annuityFormula (loanAmount l) (interestRate l / 100 / 12) (loanTerm l)))
   \<and> map_option round2 (monthlyPayment exampleLoan) = Some (104664 / 100)
   \<and> map_option round2 (totalRepayment exampleLoan) = Some (1255965 / 100)"
proof (intro conjI impI)
  assume "validLoan l"
  then have "0 < interestRate l" and "1 \<le> loanTerm l"
    by (simp_all add: validLoan_def)
  then show "monthlyPayment l =
        Some (annuityFormula (loanAmount l) (interestRate l / 100 / 12) (loanTerm l))"
    by (rule monthlyPayment_positive_rate)
next
  show "map_option round2 (monthlyPayment exampleLoan) = Some (104664 / 100)"
    by (rule exampleLoan_monthlyPayment)
next
  show "map_option round2 (totalRepayment exampleLoan) = Some (1255965 / 100)"
    by (rule exampleLoan_totalRepayment)
qed

theorem monthlyPayment_annuity_witness:
  "validLoan exampleLoan
   \<and> monthlyPayment exampleLoan = Some (annuityFormula 12000 (17 / 2 / 100 / 12) 12)"
proof -
  have v: "validLoan exampleLoan"
    by (simp add: validLoan_def exampleLoan_def loanPurposes_def)
  show ?thesis
    using v monthlyPayment_annuity [of exampleLoan] by (simp add: exampleLoan_def)
qed

text \<open>
  Claim C1, as stated, gives 1046.84 and 12562.08 for the example. The code's payment
  rounds to neither.
\<close>

theorem monthlyPayment_example_counterexample:
  "map_option round2 (monthlyPayment exampleLoan) \<noteq> Some (104684 / 100)
   \<and> map_option round2 (totalRepayment exampleLoan) \<noteq> Some (1256208 / 100)"
  by (simp add: exampleLoan_monthlyPayment exampleLoan_totalRepayment)

lemma monthlyPayment_zero_rate:
  assumes "interestRate l = 0"
  shows "monthlyPayment l = None"
  using assms by (simp add: monthlyPayment_def totalRepayment_def)

text \<open>
  Claim C2, as amended. For every loan that passes the schema's validation (interest
  rate from 1 to 25, term from 1 to 60 months) the divisor \<open>(1 + r)^n - 1\<close> is not
  zero and both \<open>totalRepayment\<close> and \<open>monthlyPayment\<close> return a finite number.
  The code has no case for a rate of zero: there the divisor is zero and the result is
  not a finite number.
\<close>

theorem monthlyPayment_total_validated:
  "(validLoan l \<longrightarrow>
      (1 + interestRate l / 100 / 12) ^ loanTerm l - 1 \<noteq> 0
      \<and> (\<exists>v. totalRepayment l = Some v) \<and> (\<exists>v. monthlyPayment l = Some v))
   \<and> (interestRate l = 0 \<longrightarrow> monthlyPayment l = None)"
proof (intro conjI impI)
  assume v: "validLoan l"
  then have r: "0 < interestRate l / 100 / 12" and n: "1 \<le> loanTerm l"
    by (simp_all add: validLoan_def)
  show d: "(1 + interestRate l / 100 / 12) ^ loanTerm l - 1 \<noteq> 0"
    using power_minus_one_pos [OF r n] by simp
  then show "\<exists>v. totalRepayment l = Some v"
    by (simp add: totalRepayment_def Let_def)
  show "\<exists>v. monthlyPayment l = Some v"
    using d n by (simp add: monthlyPayment_def totalRepayment_def Let_def)
next
  assume "interestRate l = 0"
  then show "monthlyPayment l = None" by (rule monthlyPayment_zero_rate)
qed

theorem monthlyPayment_total_validated_witness:
  "validLoan exampleLoan \<and> (\<exists>v. monthlyPayment exampleLoan = Some v)
   \<and> interestRate zeroRateLoan = 0 \<and> monthlyPayment zeroRateLoan = None"
proof -
  have a: "validLoan exampleLoan"
    by (simp add: validLoan_def exampleLoan_def loanPurposes_def)
  have b: "interestRate zeroRateLoan = 0"
    by (simp add: zeroRateLoan_def)
  show ?thesis
    using a b monthlyPayment_total_validated [of exampleLoan]
      monthlyPayment_total_validated [of zeroRateLoan]
    by blast
qed

text \<open>
  Claim C2, as stated, has the payment of a zero-rate loan equal to principal divided
  by term. For 12000 over 12 months at rate zero the code does not return 1000.
\<close>

theorem monthlyPayment_zero_rate_counterexample:
  "monthlyPayment zeroRateLoan \<noteq>
     Some (loanAmount zeroRateLoan / of_nat (loanTerm zeroRateLoan))"
  by (simp add: monthlyPayment_zero_rate zeroRateLoan_def)

subsection \<open>The repayment schedule\<close>

lemma scheduleLoop_map:
  "scheduleLoop s mp n i acc = acc @ map (mkInstallment s mp) [i..<Suc n]"
proof (induction s mp n i acc rule: scheduleLoop.induct)
  case (1 s mp n i acc)
  show ?case
  proof (cases "i \<le> n")
    case True
    then have "[i..<Suc n] = i # [Suc i..<Suc n]"
      by (simp add: upt_conv_Cons)
    with True 1 show ?thesis
      by (subst scheduleLoop.simps) simp
  next
    case False
    then show ?thesis by (subst scheduleLoop.simps) simp
  qed
qed

lemma repaymentSchedule_generate:
  "repaymentSchedule (generateRepaymentSchedule s l) =
     map (mkInstallment s (monthlyPayment l)) [1..<Suc (loanTerm l)]"
  by (simp add: generateRepaymentSchedule_def scheduleLoop_map)

text \<open>
  The schedule has one installment per month of the term, each with the flat monthly
  payment and status \<open>Pending\<close>, and installment \<open>k + 1\<close> is due at
  \<open>setMonth\<close> of the start date's month plus \<open>k + 1\<close>.
\<close>

lemma generateRepaymentSchedule_shape:
  "length (repaymentSchedule (generateRepaymentSchedule s l)) = loanTerm l
   \<and> (\<forall>k < loanTerm l.
        amount (repaymentSchedule (generateRepaymentSchedule s l) ! k) = monthlyPayment l
        \<and> istatus (repaymentSchedule (generateRepaymentSchedule s l) ! k) = ''Pending''
        \<and> dueDate (repaymentSchedule (generateRepaymentSchedule s l) ! k) =
            setMonth s (month s + Suc k))"
  by (simp add: repaymentSchedule_generate mkInstallment_def nth_map_upt del: upt_Suc)

lemma dueDate_generate:
  assumes "k < loanTerm l"
  shows "dueDate (repaymentSchedule (generateRepaymentSchedule s l) ! k) =
           setMonth s (month s + Suc k)"
  using assms generateRepaymentSchedule_shape [of s l] by blast

text \<open>
  For a start date on day 1 to 28 of its month, \<open>setMonth\<close> keeps the day and moves
  the month, so those schedules advance by exactly one calendar month per installment
  and their due dates increase.
\<close>

lemma setMonth_short_day:
  assumes "1 \<le> day s" and "day s \<le> 28"
  shows "setMonth s m =
     \<lparr>year = year s + int (m div 12), month = m mod 12, day = day s,
      msOfDay = msOfDay s\<rparr>"
proof -
  have "\<not> daysInMonth (year s + int (m div 12)) (m mod 12) < day s"
    using assms by (simp add: daysInMonth_def)
  then show ?thesis
    by (simp add: setMonth_def rollDay.simps)
qed

lemma monthIndex_setMonth_short_day:
  assumes "1 \<le> day s" and "day s \<le> 28"
  shows "monthIndex (setMonth s m) = year s * 12 + int m"
proof -
  have "int (m div 12) * 12 + int (m mod 12) = int m"
    by (metis div_mult_mod_eq of_nat_add of_nat_mult of_nat_numeral)
  then show ?thesis
    by (simp add: setMonth_short_day [OF assms] monthIndex_def algebra_simps)
qed

lemma schedule_short_day:
  assumes "1 \<le> day s" and "day s \<le> 28" and "k < loanTerm l"
  shows "monthIndex (dueDate (repaymentSchedule (generateRepaymentSchedule s l) ! k)) =
           monthIndex s + int (Suc k)"
    and "day (dueDate (repaymentSchedule (generateRepaymentSchedule s l) ! k)) = day s"
    and "msOfDay (dueDate (repaymentSchedule (generateRepaymentSchedule s l) ! k)) =
           msOfDay s"
proof -
  show "monthIndex (dueDate (repaymentSchedule (generateRepaymentSchedule s l) ! k)) =
          monthIndex s + int (Suc k)"
    using assms
    by (simp add: dueDate_generate monthIndex_setMonth_short_day)
      (simp add: monthIndex_def)
  show "day (dueDate (repaymentSchedule (generateRepaymentSchedule s l) ! k)) = day s"
    using assms by (simp add: dueDate_generate setMonth_short_day)
  show "msOfDay (dueDate (repaymentSchedule (generateRepaymentSchedule s l) ! k)) =
          msOfDay s"
    using assms by (simp add: dueDate_generate setMonth_short_day)
qed

lemma dateLess_monthIndex:
  assumes "monthIndex a < monthIndex b" and "month a < 12" and "month b < 12"
  shows "dateLess a b"
proof -
  have "year a \<le> year b"
  proof (rule ccontr)
    assume "\<not> year a \<le> year b"
    then have "year b + 1 \<le> year a" by simp
    then have "year b * 12 + 12 \<le> year a * 12" by simp
    with assms show False by (simp add: monthIndex_def)
  qed
  then show ?thesis
    using assms by (auto simp add: dateLess_def monthIndex_def)
qed

lemma schedule_short_day_increasing:
  assumes "1 \<le> day s" and "day s \<le> 28" and "Suc k < loanTerm l"
  shows "dateLess (dueDate (repaymentSchedule (generateRepaymentSchedule s l) ! k))
           (dueDate (repaymentSchedule (generateRepaymentSchedule s l) ! Suc k))"
proof -
  let ?d = "\<lambda>k. dueDate (repaymentSchedule (generateRepaymentSchedule s l) ! k)"
  have k: "k < loanTerm l" using assms by simp
  have "monthIndex (?d k) < monthIndex (?d (Suc k))"
    using schedule_short_day(1) [OF assms(1,2) k] schedule_short_day(1) [OF assms]
    by simp
  moreover have "month (?d k) < 12" "month (?d (Suc k)) < 12"
    using k assms by (simp_all add: dueDate_generate setMonth_short_day)
  ultimately show ?thesis by (rule dateLess_monthIndex)
qed

text \<open>
  Claim C3 at a month end. A loan over two months whose schedule is generated on
  31 January 2025 gets the due dates 3 March 2025 and 31 March 2025: February has no
  day 31, so \<open>setMonth\<close> runs over into March. The first installment is due in the
  second calendar month after the start, not the first, and both installments are due
  in the same month.
\<close>

theorem schedule_month_end:
  "map dueDate (repaymentSchedule (generateRepaymentSchedule jan31 twoMonthLoan)) =
     [\<lparr>year = 2025, month = 2, day = 3, msOfDay = 0\<rparr>,
      \<lparr>year = 2025, month = 2, day = 31, msOfDay = 0\<rparr>]
   \<and> monthIndex (dueDate (repaymentSchedule (generateRepaymentSchedule jan31 twoMonthLoan) ! 0))
       = monthIndex jan31 + 2"
  by code_simp

section \<open>Properties of the double arithmetic\<close>

text \<open>
  \<open>binExponent\<close> is the binary exponent, rounding to a double leaves a double
  unchanged, and a rounding is recognised by its exponent and its significand.
\<close>

lemma powi_less_cancel:
  assumes "(2::rat) powi a < 2 powi b"
  shows "a < b"
  using assms
  by (metis not_less_iff_gr_or_eq one_less_numeral_iff
    power_int_strict_increasing semiring_norm(76))


lemma powi_nat: "0 \<le> k \<Longrightarrow> (2::rat) powi k = 2 ^ nat k"
  by (simp add: power_int_def)

lemma binExponent_bounds:
  assumes "x \<noteq> 0"
  shows "2 powi (binExponent x) \<le> \<bar>x\<bar> \<and> \<bar>x\<bar> < 2 powi (binExponent x + 1)"
proof -
  obtain a b where q: "quotient_of \<bar>x\<bar> = (a, b)" by (cases "quotient_of \<bar>x\<bar>")
  have b: "0 < b" using q by (rule quotient_of_denom_pos)
  have x: "\<bar>x\<bar> = of_int a / of_int b" using q by (rule quotient_of_div)
  have a: "0 < a"
  proof -
    have "0 < \<bar>x\<bar>" using assms by simp
    then show ?thesis using x b by (simp add: zero_less_divide_iff)
  qed
  define d where "d = bitlen a - bitlen b"
  have la: "1 \<le> bitlen a" using a by (simp add: bitlen_alt_def)
  have lb: "1 \<le> bitlen b" using b by (simp add: bitlen_alt_def)
  have "(of_int (2 ^ nat (bitlen a - 1)) :: rat) \<le> of_int a"
    using bitlen_bounds [OF a] by (simp only: of_int_le_iff)
  then have a1: "(2::rat) powi (bitlen a - 1) \<le> of_int a"
    using la by (simp add: powi_nat)
  have "(of_int a :: rat) < of_int (2 ^ nat (bitlen a))"
    using bitlen_bounds [OF a] by (simp only: of_int_less_iff)
  then have a2: "of_int a < (2::rat) powi (bitlen a)"
    using la by (simp add: powi_nat)
  have "(of_int (2 ^ nat (bitlen b - 1)) :: rat) \<le> of_int b"
    using bitlen_bounds [OF b] by (simp only: of_int_le_iff)
  then have b1: "(2::rat) powi (bitlen b - 1) \<le> of_int b"
    using lb by (simp add: powi_nat)
  have "(of_int b :: rat) < of_int (2 ^ nat (bitlen b))"
    using bitlen_bounds [OF b] by (simp only: of_int_less_iff)
  then have b2: "of_int b < (2::rat) powi (bitlen b)"
    using lb by (simp add: powi_nat)
  have bpos: "(0::rat) < of_int b" using b by simp
  have upper: "\<bar>x\<bar> < 2 powi (d + 1)"
  proof -
    have "of_int a / of_int b < (2::rat) powi (bitlen a) / 2 powi (bitlen b - 1)"
      using a a2 b1 by (intro frac_less) simp_all
    also have "\<dots> = 2 powi (bitlen a - (bitlen b - 1))"
      by (rule power_int_diff [symmetric]) simp
    also have "bitlen a - (bitlen b - 1) = d + 1"
      by (simp add: d_def)
    finally show ?thesis using x by simp
  qed
  have lower: "2 powi (d - 1) < \<bar>x\<bar>"
  proof -
    have "(2::rat) powi (bitlen a - 1) / 2 powi (bitlen b) < of_int a / of_int b"
      using a1 b2 bpos by (intro frac_less2) simp_all
    moreover have "(2::rat) powi (bitlen a - 1) / 2 powi (bitlen b) =
        2 powi (bitlen a - 1 - bitlen b)"
      by (rule power_int_diff [symmetric]) simp
    moreover have "bitlen a - 1 - bitlen b = d - 1"
      by (simp add: d_def)
    ultimately show ?thesis using x by simp
  qed
  have e: "binExponent x = (if 2 powi d \<le> \<bar>x\<bar> then d else d - 1)"
    by (simp add: binExponent_def q d_def Let_def)
  show ?thesis
  proof (cases "2 powi d \<le> \<bar>x\<bar>")
    case True
    then show ?thesis using e upper by simp
  next
    case False
    then show ?thesis using e lower by simp
  qed
qed

lemma binExponent_unique:
  assumes "2 powi e \<le> \<bar>x\<bar>" and "\<bar>x\<bar> < 2 powi (e + 1)"
  shows "binExponent x = e"
proof -
  have "\<not> (2::rat) powi e \<le> 0" by (simp add: not_le)
  then have "x \<noteq> 0" using assms(1) by (cases "x = 0") simp_all
  then have b: "2 powi (binExponent x) \<le> \<bar>x\<bar>" "\<bar>x\<bar> < 2 powi (binExponent x + 1)"
    using binExponent_bounds by simp_all
  have "(2::rat) powi e < 2 powi (binExponent x + 1)" using assms(1) b(2) by simp
  then have 1: "e < binExponent x + 1" by (rule powi_less_cancel)
  have "(2::rat) powi (binExponent x) < 2 powi (e + 1)" using assms(2) b(1) by simp
  then have 2: "binExponent x < e + 1" by (rule powi_less_cancel)
  show ?thesis using 1 2 by simp
qed

lemma roundHalfEven_near:
  assumes "\<bar>y - of_int m\<bar> < 1 / 2"
  shows "roundHalfEven y = m"
proof (cases "of_int m \<le> y")
  case True
  have lt: "y - of_int m < 1 / 2" using assms by (simp only: abs_less_iff)
  have f: "\<lfloor>y\<rfloor> = m" using True lt by (simp add: floor_eq_iff)
  show ?thesis using lt by (simp add: roundHalfEven_def f Let_def)
next
  case False
  have gt: "of_int m - y < 1 / 2" using assms by (simp only: abs_less_iff) simp
  have f: "\<lfloor>y\<rfloor> = m - 1" using False gt by (simp add: floor_eq_iff)
  have "1 / 2 < y - of_int (m - 1)" using gt by simp
  then show ?thesis by (simp add: roundHalfEven_def f Let_def)
qed






lemma toDouble_zero: "toDouble 0 = 0"
  by (simp add: toDouble_def)


lemma roundHalfEven_tie: "roundHalfEven (of_int f + 1 / 2) = (if even f then f else f + 1)"
proof -
  have "\<lfloor>(of_int f :: rat) + 1 / 2\<rfloor> = f" by (simp add: floor_eq_iff)
  then show ?thesis by (simp add: roundHalfEven_def Let_def)
qed

lemma toDouble_cert:
  assumes "2 powi e \<le> \<bar>x\<bar>" and "\<bar>x\<bar> < 2 powi (e + 1)" and "- 1022 \<le> e"
    and "\<bar>x / 2 powi (e - 52) - of_int m\<bar> < 1 / 2"
  shows "toDouble x = of_int m * 2 powi (e - 52)"
proof -
  have "\<not> (2::rat) powi e \<le> 0" by (simp add: not_le)
  then have x: "x \<noteq> 0" using assms(1) by (cases "x = 0") simp_all
  have e: "binExponent x = e" using assms(1,2) by (rule binExponent_unique)
  show ?thesis
    using x assms(3) roundHalfEven_near [OF assms(4)]
    by (simp add: toDouble_def e Let_def max_def)
qed

lemma toDouble_cert_tie:
  assumes "2 powi e \<le> \<bar>x\<bar>" and "\<bar>x\<bar> < 2 powi (e + 1)" and "- 1022 \<le> e"
    and "x / 2 powi (e - 52) = of_int f + 1 / 2"
  shows "toDouble x = of_int (if even f then f else f + 1) * 2 powi (e - 52)"
proof -
  have "\<not> (2::rat) powi e \<le> 0" by (simp add: not_le)
  then have x: "x \<noteq> 0" using assms(1) by (cases "x = 0") simp_all
  have e: "binExponent x = e" using assms(1,2) by (rule binExponent_unique)
  have "roundHalfEven (x / 2 powi (e - 52)) = (if even f then f else f + 1)"
    by (simp only: assms(4) roundHalfEven_tie)
  then show ?thesis
    using x assms(3) by (simp add: toDouble_def e Let_def max_def)
qed

subsection \<open>The roundings of the examples\<close>

text \<open>
  Each lemma is one rounding that the scores of the example loans below need, proved
  from its exponent and significand by \<open>toDouble_cert\<close>, or by
  \<open>toDouble_cert_tie\<close> where the number lies halfway between two doubles.
\<close>

lemma td_1: "toDouble 20100 = 20100"
  using toDouble_cert [of "14" "20100" "5525045929574400"] by simp

lemma td_2: "toDouble 22000 = 22000"
  using toDouble_cert [of "14" "22000" "6047313952768000"] by simp

lemma td_3: "toDouble (201 / 220) = (8229304773649725 / 9007199254740992)"
  using toDouble_cert [of "(- 1)" "(201 / 220)" "8229304773649725"] by simp

lemma td_4: "toDouble (777894481091267 / 9007199254740992) = (777894481091267 / 9007199254740992)"
  using toDouble_cert [of "(- 4)" "(777894481091267 / 9007199254740992)" "6223155848730136"] by simp

lemma td_5: "toDouble (1 / 5) = (3602879701896397 / 18014398509481984)"
  using toDouble_cert [of "(- 3)" "(1 / 5)" "7205759403792794"] by simp

lemma td_6: "toDouble 3 = 3"
  using toDouble_cert [of "1" "3" "6755399441055744"] by simp

lemma td_7: "toDouble (2 / 5) = (3602879701896397 / 9007199254740992)"
  using toDouble_cert [of "(- 2)" "(2 / 5)" "7205759403792794"] by simp

lemma td_8: "toDouble (1 / 10) = (3602879701896397 / 36028797018963968)"
  using toDouble_cert [of "(- 4)" "(1 / 10)" "7205759403792794"] by simp

lemma td_9: "toDouble (3 / 10) = (5404319552844595 / 18014398509481984)"
  using toDouble_cert [of "(- 2)" "(3 / 10)" "5404319552844595"] by simp

lemma td_10: "toDouble 550 = 550"
  using toDouble_cert [of "9" "550" "4837851162214400"] by simp

lemma td_11: "toDouble (2802660236140956481837935464999 / 162259276829213363391578010288128) = (4978524678984109 / 288230376151711744)"
  using toDouble_cert [of "(- 6)" "(2802660236140956481837935464999 / 162259276829213363391578010288128)" "4978524678984109"] by simp

lemma td_12: "toDouble (1369094286720629975 / 144115188075855872) = (5348024557502461 / 562949953421312)"
  using toDouble_cert [of "3" "(1369094286720629975 / 144115188075855872)" "5348024557502461"] by simp

lemma td_13: "toDouble (5348024557502461 / 562949953421312) = (5348024557502461 / 562949953421312)"
  using toDouble_cert [of "3" "(5348024557502461 / 562949953421312)" "5348024557502461"] by simp

lemma td_14: "toDouble (12980742146337070512478121581609 / 649037107316853453566312041152512) = (1441151880758559 / 72057594037927936)"
  using toDouble_cert [of "(- 6)" "(12980742146337070512478121581609 / 649037107316853453566312041152512)" "5764607523034236"] by simp

lemma td_15: "toDouble (396316767208603725 / 36028797018963968) = (6192449487634433 / 562949953421312)"
  using toDouble_cert [of "3" "(396316767208603725 / 36028797018963968)" "6192449487634433"] by simp

lemma td_16: "toDouble (5770237022568447 / 281474976710656) = (5770237022568447 / 281474976710656)"
  using toDouble_cert [of "4" "(5770237022568447 / 281474976710656)" "5770237022568447"] by simp

lemma td_17: "toDouble (16212958658533785 / 18014398509481984) = (2026619832316723 / 2251799813685248)"
  using toDouble_cert_tie [of "(- 1)" "(16212958658533785 / 18014398509481984)" "8106479329266892"] by simp

lemma td_18: "toDouble (557320453887098825 / 1125899906842624) = (8708132091985919 / 17592186044416)"
  using toDouble_cert [of "8" "(557320453887098825 / 1125899906842624)" "8708132091985919"] by simp

lemma td_19: "toDouble (145100350494343151 / 281474976710656) = (4534385952948223 / 8796093022208)"
  using toDouble_cert [of "9" "(145100350494343151 / 281474976710656)" "4534385952948223"] by simp

lemma td_20: "toDouble (7173213859610623 / 8796093022208) = (7173213859610623 / 8796093022208)"
  using toDouble_cert [of "9" "(7173213859610623 / 8796093022208)" "7173213859610623"] by simp

lemma td_21: "toDouble (2 / 3) = (6004799503160661 / 9007199254740992)"
  using toDouble_cert [of "(- 1)" "(2 / 3)" "6004799503160661"] by simp

lemma td_22: "toDouble (6004799503160661 / 9007199254740992) = (6004799503160661 / 9007199254740992)"
  using toDouble_cert [of "(- 1)" "(6004799503160661 / 9007199254740992)" "6004799503160661"] by simp

lemma td_23: "toDouble (3 / 5) = (5404319552844595 / 9007199254740992)"
  using toDouble_cert [of "(- 1)" "(3 / 5)" "5404319552844595"] by simp

lemma td_24: "toDouble (1426139882000657 / 1125899906842624) = (1426139882000657 / 1125899906842624)"
  using toDouble_cert [of "0" "(1426139882000657 / 1125899906842624)" "5704559528002628"] by simp

lemma td_25: "toDouble (4 / 5) = (3602879701896397 / 4503599627370496)"
  using toDouble_cert [of "(- 1)" "(4 / 5)" "7205759403792794"] by simp

lemma td_26: "toDouble (9307439229899025 / 4503599627370496) = (581714951868689 / 281474976710656)"
  using toDouble_cert_tie [of "1" "(9307439229899025 / 4503599627370496)" "4653719614949512"] by simp

lemma td_27: "toDouble (581714951868689 / 844424930131968) = (6204959486599349 / 9007199254740992)"
  using toDouble_cert [of "(- 1)" "(581714951868689 / 844424930131968)" "6204959486599349"] by simp

lemma td_28: "toDouble 1052 = 1052"
  using toDouble_cert [of "10" "1052" "4626744929681408"] by simp

lemma td_29: "toDouble 1584 = 1584"
  using toDouble_cert [of "10" "1584" "6966505673588736"] by simp

lemma td_30: "toDouble (263 / 396) = (2991027025248587 / 4503599627370496)"
  using toDouble_cert [of "(- 1)" "(263 / 396)" "5982054050497174"] by simp

lemma td_31: "toDouble (1512572602121909 / 4503599627370496) = (1512572602121909 / 4503599627370496)"
  using toDouble_cert [of "(- 2)" "(1512572602121909 / 4503599627370496)" "6050290408487636"] by simp

lemma td_32: "toDouble 4 = 4"
  using toDouble_cert [of "2" "4" "4503599627370496"] by simp

lemma td_33: "toDouble (4 / 3) = (6004799503160661 / 4503599627370496)"
  using toDouble_cert [of "0" "(4 / 3)" "6004799503160661"] by simp

lemma td_34: "toDouble (22355722585358283100823845645553 / 81129638414606681695789005144064) = (4963967589279479 / 18014398509481984)"
  using toDouble_cert [of "(- 2)" "(22355722585358283100823845645553 / 81129638414606681695789005144064)" "4963967589279479"] by simp

lemma td_35: "toDouble (1365091087051856725 / 9007199254740992) = (5332387058796315 / 35184372088832)"
  using toDouble_cert [of "7" "(1365091087051856725 / 9007199254740992)" "5332387058796315"] by simp

lemma td_36: "toDouble (5332387058796315 / 35184372088832) = (5332387058796315 / 35184372088832)"
  using toDouble_cert [of "7" "(5332387058796315 / 35184372088832)" "5332387058796315"] by simp

lemma td_37: "toDouble (5449617125829641006293481861873 / 81129638414606681695789005144064) = (4840232326790109 / 72057594037927936)"
  using toDouble_cert [of "(- 4)" "(5449617125829641006293481861873 / 81129638414606681695789005144064)" "4840232326790109"] by simp

lemma td_38: "toDouble (1331063889867279975 / 36028797018963968) = (2599734159897031 / 70368744177664)"
  using toDouble_cert [of "5" "(1331063889867279975 / 36028797018963968)" "5199468319794062"] by simp

lemma td_39: "toDouble (13264508277489661 / 70368744177664) = (3316127069372415 / 17592186044416)"
  using toDouble_cert_tie [of "7" "(13264508277489661 / 70368744177664)" "6632254138744830"] by simp

lemma td_40: "toDouble (112308515707551713 / 562949953421312) = (3509641115860991 / 17592186044416)"
  using toDouble_cert [of "7" "(112308515707551713 / 562949953421312)" "7019282231721982"] by simp

lemma td_41: "toDouble (32451855365842669675915850477295 / 81129638414606681695789005144064) = (7205759403792793 / 18014398509481984)"
  using toDouble_cert [of "(- 2)" "(32451855365842669675915850477295 / 81129638414606681695789005144064)" "7205759403792793"] by simp

lemma td_42: "toDouble (1981583836043018075 / 9007199254740992) = (7740561859543039 / 35184372088832)"
  using toDouble_cert [of "7" "(1981583836043018075 / 9007199254740992)" "7740561859543039"] by simp

lemma td_43: "toDouble (14759844091265021 / 35184372088832) = (3689961022816255 / 8796093022208)"
  using toDouble_cert_tie [of "8" "(14759844091265021 / 35184372088832)" "7379922045632510"] by simp

lemma td_44: "toDouble (6328788929478655 / 8796093022208) = (6328788929478655 / 8796093022208)"
  using toDouble_cert [of "9" "(6328788929478655 / 8796093022208)" "6328788929478655"] by simp

lemma td_45: "toDouble (13210558906953455 / 9007199254740992) = (825659931684591 / 562949953421312)"
  using toDouble_cert_tie [of "0" "(13210558906953455 / 9007199254740992)" "6605279453476727"] by simp

lemma td_46: "toDouble (18614878459798051 / 9007199254740992) = (4653719614949513 / 2251799813685248)"
  using toDouble_cert [of "1" "(18614878459798051 / 9007199254740992)" "4653719614949513"] by simp

lemma td_47: "toDouble (4653719614949513 / 6755399441055744) = (6204959486599351 / 9007199254740992)"
  using toDouble_cert [of "(- 1)" "(4653719614949513 / 6755399441055744)" "6204959486599351"] by simp

lemma td_48: "toDouble (22355722585358290306583249438347 / 81129638414606681695789005144064) = (4963967589279481 / 18014398509481984)"
  using toDouble_cert [of "(- 2)" "(22355722585358290306583249438347 / 81129638414606681695789005144064)" "4963967589279481"] by simp

lemma td_49: "toDouble (1365091087051857275 / 9007199254740992) = (5332387058796317 / 35184372088832)"
  using toDouble_cert [of "7" "(1365091087051857275 / 9007199254740992)" "5332387058796317"] by simp

lemma td_50: "toDouble (5332387058796317 / 35184372088832) = (5332387058796317 / 35184372088832)"
  using toDouble_cert [of "7" "(5332387058796317 / 35184372088832)" "5332387058796317"] by simp

lemma td_51: "toDouble (13264508277489665 / 70368744177664) = (377 / 2)"
  using toDouble_cert_tie [of "7" "(13264508277489665 / 70368744177664)" "6632254138744832"] by simp

lemma td_52: "toDouble (112308515707551745 / 562949953421312) = (399 / 2)"
  using toDouble_cert [of "7" "(112308515707551745 / 562949953421312)" "7019282231721984"] by simp

lemma td_53: "toDouble (14759844091265023 / 35184372088832) = (839 / 2)"
  using toDouble_cert_tie [of "8" "(14759844091265023 / 35184372088832)" "7379922045632511"] by simp

lemma td_54: "toDouble (1439 / 2) = (1439 / 2)"
  using toDouble_cert [of "9" "(1439 / 2)" "6328788929478656"] by simp

lemmas td_all =
  td_1 td_2 td_3 td_4 td_5 td_6 td_7 td_8 td_9 td_10
  td_11 td_12 td_13 td_14 td_15 td_16 td_17 td_18 td_19 td_20
  td_21 td_22 td_23 td_24 td_25 td_26 td_27 td_28 td_29 td_30
  td_31 td_32 td_33 td_34 td_35 td_36 td_37 td_38 td_39 td_40
  td_41 td_42 td_43 td_44 td_45 td_46 td_47 td_48 td_49 td_50
  td_51 td_52 td_53 td_54

section \<open>Properties of the credit report\<close>

lemma foldl_plus_sum_list:
  fixes a :: rat
  shows "foldl (\<lambda>s x. s + f x) a xs = a + sum_list (map f xs)"
  by (induction xs arbitrary: a) (simp_all add: add.assoc)

lemma foldl_cond_sum_list:
  fixes a :: rat
  shows "foldl (\<lambda>s x. if P x then s + f x else s) a xs =
           a + sum_list (map (\<lambda>x. if P x then f x else 0) xs)"
  by (induction xs arbitrary: a) (simp_all add: add.assoc)

lemma sum_list_map_perm:
  fixes f :: "'a \<Rightarrow> rat"
  assumes "mset xs = mset ys"
  shows "sum_list (map f xs) = sum_list (map f ys)"
proof -
  have "mset (map f xs) = mset (map f ys)"
    using assms by (metis mset_map)
  then have "sum_mset (mset (map f xs)) = sum_mset (mset (map f ys))"
    by simp
  then show ?thesis
    by (simp only: sum_mset_sum_list)
qed

lemma remdups_length_perm:
  assumes "mset xs = mset ys"
  shows "length (remdups (map g xs)) = length (remdups (map g ys))"
proof -
  have "set xs = set ys" using assms by (rule mset_eq_setD)
  then have "set (map g xs) = set (map g ys)" by simp
  then show ?thesis by (simp only: length_remdups_card_conv)
qed

lemma statusName_Active: "(statusName s = ''Active'') = (s = Active)"
  by (cases s) simp_all

lemma paymentHistoryValue_sum:
  "paymentHistoryValue loans =
     jsDivide (sum_list (map historyRatio loans)) (of_nat (length loans))"
proof -
  have "(\<lambda>sum loan.
          let paid = length (filter (\<lambda>p. paymentStatus p = Some ''paid'')
                               (orEmpty (paymentHistory loan)));
              total = (if length (orEmpty (paymentHistory loan)) = 0 then 1
                       else length (orEmpty (paymentHistory loan)))
          in sum + of_nat paid / of_nat total) = (\<lambda>sum loan. sum + historyRatio loan)"
    by (intro ext) (simp add: historyRatio_def Let_def)
  then show ?thesis
    by (simp add: paymentHistoryValue_def foldl_plus_sum_list)
qed

lemma lookup_statusWeights:
  "(case map_of statusWeights (statusName s) of None \<Rightarrow> 0 | Some w \<Rightarrow> w) =
     statusContribution s"
  by (cases s) (simp_all add: statusWeights_def)

lemma accountStatusValue_sum:
  "accountStatusValue loans =
     jsDivide (sum_list (map (\<lambda>l. statusContribution (status l)) loans))
       (of_nat (length loans))"
  by (simp add: accountStatusValue_def lookup_statusWeights foldl_plus_sum_list)

lemma totalDebtOf_sum:
  "totalDebtOf loans =
     sum_list (map (\<lambda>l. if statusName (status l) = ''Active'' then loanAmount l else 0) loans)"
  by (simp add: totalDebtOf_def foldl_cond_sum_list)

lemma totalCreditOf_sum:
  "totalCreditOf loans =
     sum_list (map (\<lambda>l. if statusName (status l) = ''Active'' \<and> loanType l = Some ''Credit''
                         then orZero (creditLimit l) else 0) loans)"
  by (simp add: totalCreditOf_def foldl_cond_sum_list)

lemma availableCreditOf_sum:
  "availableCreditOf loans = sum_list (map availableContribution loans)"
proof -
  have "(\<lambda>l. if statusName (status l) = ''Active'' \<and> loanType l = Some ''Credit''
             then max 0 (orZero (creditLimit l) - loanAmount l) else 0) = availableContribution"
    by (intro ext) (simp add: availableContribution_def statusName_Active)
  then show ?thesis
    by (simp add: availableCreditOf_def foldl_cond_sum_list)
qed

lemma paymentHistoryValue_perm:
  assumes "mset xs = mset ys"
  shows "paymentHistoryValue xs = paymentHistoryValue ys"
  using sum_list_map_perm [OF assms, of historyRatio] mset_eq_length [OF assms]
  by (simp add: paymentHistoryValue_sum)

lemma accountStatusValue_perm:
  assumes "mset xs = mset ys"
  shows "accountStatusValue xs = accountStatusValue ys"
  using sum_list_map_perm [OF assms, of "\<lambda>l. statusContribution (status l)"]
    mset_eq_length [OF assms]
  by (simp add: accountStatusValue_sum)

lemma creditUtilizationValue_perm:
  assumes "mset xs = mset ys"
  shows "creditUtilizationValue xs = creditUtilizationValue ys"
proof -
  have "totalDebtOf xs = totalDebtOf ys"
    unfolding totalDebtOf_sum using assms by (rule sum_list_map_perm)
  moreover have "totalCreditOf xs = totalCreditOf ys"
    unfolding totalCreditOf_sum using assms by (rule sum_list_map_perm)
  ultimately show ?thesis
    by (simp add: creditUtilizationValue_def)
qed

lemma creditMixValue_perm:
  assumes "mset xs = mset ys"
  shows "creditMixValue xs = creditMixValue ys"
  using remdups_length_perm [OF assms, of loanPurpose]
  by (simp add: creditMixValue_def)

text \<open>
  Read over exact numbers, the score does not depend on the order of the loans: two
  lists with the same loans, each as often, get the same score.
\<close>

lemma calculateCreditScore_permutation:
  assumes "mset loans = mset loans'"
  shows "calculateCreditScore loans = calculateCreditScore loans'"
proof -
  have "scoreFactors loans = scoreFactors loans'"
    using paymentHistoryValue_perm [OF assms] creditUtilizationValue_perm [OF assms]
      creditMixValue_perm [OF assms] accountStatusValue_perm [OF assms]
    by (simp add: scoreFactors_def)
  then show ?thesis
    by (simp add: calculateCreditScore_def)
qed

subsection \<open>The scores of the example loans in double arithmetic\<close>

lemma scoreD_tieLoan: "calculateCreditScoreD [tieLoan] = Some 815"
  by (simp add: calculateCreditScoreD_def weightedScoreD_def scoreFactorsD_def
      paymentHistoryValueD_def creditUtilizationValueD_def creditMixValueD_def
      accountStatusValueD_def totalDebtD_def totalCreditD_def fdivide_def fadd_def fsub_def
      fmul_def jsRound_def statusWeights_def baseScore_def maxScore_def orEmpty_def orZero_def
      tieLoan_def exampleLoan_def Let_def toDouble_zero td_all floor_eq_iff)



subsection \<open>The order of the loans\<close>
















subsection \<open>The score\<close>

lemma score_exampleLoan: "calculateCreditScore [exampleLoan] = Some 586"
  by (simp add: calculateCreditScore_def weightedScore_def scoreFactors_def
      paymentHistoryValue_def creditUtilizationValue_def creditMixValue_def
      accountStatusValue_def totalDebtOf_def totalCreditOf_def jsDivide_def jsRound_def
      statusWeights_def baseScore_def maxScore_def orEmpty_def exampleLoan_def Let_def
      floor_eq_iff)

lemma score2_exampleLoan: "calculateCreditScore2 [exampleLoan] = Some 300"
  by (simp add: calculateCreditScore2_def totalDebtOf_def totalCreditOf_def jsRound_def
      orEmpty_def exampleLoan_def Let_def floor_eq_iff)

lemma jsDivide_length:
  assumes "loans \<noteq> []"
  shows "jsDivide x (of_nat (length loans)) = Some (x / of_nat (length loans))"
  using assms by (simp add: jsDivide_def)

lemma scoreRangeOf_bands:
  "(scoreRangeOf (Some s) = ''Excellent'') = (720 \<le> s)"
  "(scoreRangeOf (Some s) = ''Good'') = (650 \<le> s \<and> s < 720)"
  "(scoreRangeOf (Some s) = ''Fair'') = (580 \<le> s \<and> s < 650)"
  "(scoreRangeOf (Some s) = ''Poor'') = (s < 580)"
  by (simp_all add: scoreRangeOf_def)

lemma fsub_spread: "fsub maxScore baseScore = 550"
  using toDouble_cert [of 9 550 "550 * 2 ^ 43"]
  by (simp add: fsub_def maxScore_def baseScore_def)

lemma weightedScoreD_scoreFactorsD:
  assumes "paymentHistoryValueD loans = Some ph" and "creditUtilizationValueD loans = Some cu"
    and "creditMixValueD loans = Some cm" and "accountStatusValueD loans = Some ast"
  shows "weightedScoreD (scoreFactorsD loans) =
     Some (fadd (fadd (fadd (fadd 0 (fmul (fmul ph (toDouble (4 / 10))) 550))
                             (fmul (fmul cu (toDouble (2 / 10))) 550))
                       (fmul (fmul cm (toDouble (1 / 10))) 550))
                 (fmul (fmul ast (toDouble (3 / 10))) 550))"
  using assms by (simp add: weightedScoreD_def scoreFactorsD_def fsub_spread)

lemma fdivide_length:
  assumes "loans \<noteq> []"
  shows "fdivide x (of_nat (length loans)) = Some (toDouble (x / of_nat (length loans)))"
  using assms by (simp add: fdivide_def)

text \<open>
  Claim C5, as amended. For every non-empty list of stored loans the four factor values
  are finite numbers, and the score is \<open>Math.round\<close> of
  \<open>300 + \<Sum> value \<times> weight \<times> 550\<close>, the products and the sums taken in double
  arithmetic from left to right in the order payment history, utilization, mix and
  status, then clamped to 300 and 850; so it lies between 300 and 850. The report
  carries that score, and its band is Excellent exactly from 720, Good exactly from
  650 below 720, Fair exactly from 580 below 650, and Poor exactly below 580.
\<close>

theorem calculateCreditScoreD_formula:
  assumes "loans \<noteq> []" and "\<forall>l \<in> set loans. storedLoan l"
  shows "\<exists>ph cu cm ast s.
     paymentHistoryValueD loans = Some ph \<and> creditUtilizationValueD loans = Some cu
     \<and> creditMixValueD loans = Some cm \<and> accountStatusValueD loans = Some ast
     \<and> s = min (max (jsRound (fadd 300
               (fadd (fadd (fadd (fadd 0 (fmul (fmul ph (toDouble (4 / 10))) 550))
                                 (fmul (fmul cu (toDouble (2 / 10))) 550))
                           (fmul (fmul cm (toDouble (1 / 10))) 550))
                     (fmul (fmul ast (toDouble (3 / 10))) 550)))) 300) 850
     \<and> calculateCreditScoreD loans = Some s \<and> 300 \<le> s \<and> s \<le> 850
     \<and> creditScore (getCreditReport now loans) = Some s
     \<and> (scoreRange (getCreditReport now loans) = ''Excellent'') = (720 \<le> s)
     \<and> (scoreRange (getCreditReport now loans) = ''Good'') = (650 \<le> s \<and> s < 720)
     \<and> (scoreRange (getCreditReport now loans) = ''Fair'') = (580 \<le> s \<and> s < 650)
     \<and> (scoreRange (getCreditReport now loans) = ''Poor'') = (s < 580)"
proof -
  obtain ph where ph: "paymentHistoryValueD loans = Some ph"
    using fdivide_length [OF assms(1)] by (simp add: paymentHistoryValueD_def)
  obtain cu where cu: "creditUtilizationValueD loans = Some cu"
    unfolding creditUtilizationValueD_def Let_def by blast
  obtain cm where cm: "creditMixValueD loans = Some cm"
    by (simp add: creditMixValueD_def fdivide_def)
  obtain ast where ast: "accountStatusValueD loans = Some ast"
    using fdivide_length [OF assms(1)] by (simp add: accountStatusValueD_def)
  define w where "w = fadd (fadd (fadd (fadd 0 (fmul (fmul ph (toDouble (4 / 10))) 550))
                                 (fmul (fmul cu (toDouble (2 / 10))) 550))
                           (fmul (fmul cm (toDouble (1 / 10))) 550))
                     (fmul (fmul ast (toDouble (3 / 10))) 550)"
  define s where "s = min (max (jsRound (fadd 300 w)) 300) 850"
  have "weightedScoreD (scoreFactorsD loans) = Some w"
    using weightedScoreD_scoreFactorsD [OF ph cu cm ast] by (simp add: w_def)
  then have score: "calculateCreditScoreD loans = Some s"
    by (simp add: calculateCreditScoreD_def baseScore_def s_def)
  have lo: "300 \<le> s" and hi: "s \<le> 850"
    by (simp_all add: s_def)
  have report: "creditScore (getCreditReport now loans) = Some s"
    "scoreRange (getCreditReport now loans) = scoreRangeOf (Some s)"
    using assms(1) score by (simp_all add: getCreditReport_def)
  show ?thesis
  proof (intro exI conjI)
    show "paymentHistoryValueD loans = Some ph" by (rule ph)
    show "creditUtilizationValueD loans = Some cu" by (rule cu)
    show "creditMixValueD loans = Some cm" by (rule cm)
    show "accountStatusValueD loans = Some ast" by (rule ast)
    show "s = min (max (jsRound (fadd 300
               (fadd (fadd (fadd (fadd 0 (fmul (fmul ph (toDouble (4 / 10))) 550))
                                 (fmul (fmul cu (toDouble (2 / 10))) 550))
                           (fmul (fmul cm (toDouble (1 / 10))) 550))
                     (fmul (fmul ast (toDouble (3 / 10))) 550)))) 300) 850"
      unfolding s_def w_def by (rule refl)
    show "calculateCreditScoreD loans = Some s" by (rule score)
    show "300 \<le> s" by (rule lo)
    show "s \<le> 850" by (rule hi)
    show "creditScore (getCreditReport now loans) = Some s" by (rule report(1))
    show "(scoreRange (getCreditReport now loans) = ''Excellent'') = (720 \<le> s)"
      unfolding report(2) by (rule scoreRangeOf_bands(1))
    show "(scoreRange (getCreditReport now loans) = ''Good'') = (650 \<le> s \<and> s < 720)"
      unfolding report(2) by (rule scoreRangeOf_bands(2))
    show "(scoreRange (getCreditReport now loans) = ''Fair'') = (580 \<le> s \<and> s < 650)"
      unfolding report(2) by (rule scoreRangeOf_bands(3))
    show "(scoreRange (getCreditReport now loans) = ''Poor'') = (s < 580)"
      unfolding report(2) by (rule scoreRangeOf_bands(4))
  qed
qed

lemma storedLoan_examples:
  "storedLoan tieLoan" "storedLoan loanA" "storedLoan loanB" "storedLoan loanC"
  by (simp_all add: storedLoan_def validLoan_def loanPurposes_def orZero_def tieLoan_def
      loanA_def loanB_def loanC_def exampleLoan_def)

text \<open>The revolving account on the tie scores within the range.\<close>

theorem calculateCreditScoreD_formula_witness:
  "[tieLoan] \<noteq> [] \<and> storedLoan tieLoan
   \<and> (\<exists>s. calculateCreditScoreD [tieLoan] = Some s \<and> 300 \<le> s \<and> s \<le> 850
          \<and> creditScore (getCreditReport ''2025-01-31T00:00:00.000Z'' [tieLoan]) = Some s
          \<and> (scoreRange (getCreditReport ''2025-01-31T00:00:00.000Z'' [tieLoan])
               = ''Excellent'') = (720 \<le> s))"
proof -
  have a: "[tieLoan] \<noteq> []" by simp
  have b: "\<forall>l \<in> set [tieLoan]. storedLoan l" by (simp add: storedLoan_examples)
  show ?thesis
    using a storedLoan_examples(1)
      calculateCreditScoreD_formula [OF a b, of "''2025-01-31T00:00:00.000Z''"]
    by blast
qed

text \<open>
  Claim C5, as stated, has the score equal the rounding of the exact sum. For the
  revolving account that owes 20100 on a limit of 22000 the factor values are 0,
  19/220, 1/5 and 3, the exact sum is 815.5 and rounds to 816; the double sum of the
  code is just below 815.5, and the code returns 815.
\<close>

theorem calculateCreditScore_tie_counterexample:
  "paymentHistoryValue [tieLoan] = Some 0
   \<and> creditUtilizationValue [tieLoan] = Some (19 / 220)
   \<and> creditMixValue [tieLoan] = Some (1 / 5)
   \<and> accountStatusValue [tieLoan] = Some 3
   \<and> min (max (jsRound (300 + (0 * (4 / 10) * 550 + 19 / 220 * (2 / 10) * 550
                              + 1 / 5 * (1 / 10) * 550 + 3 * (3 / 10) * 550))) 300) 850 = 816
   \<and> calculateCreditScoreD [tieLoan] = Some 815"
proof -
  have "paymentHistoryValue [tieLoan] = Some 0"
    by (simp add: paymentHistoryValue_def jsDivide_def orEmpty_def tieLoan_def
        exampleLoan_def)
  moreover have "creditUtilizationValue [tieLoan] = Some (19 / 220)"
    by (simp add: creditUtilizationValue_def totalDebtOf_def totalCreditOf_def orZero_def
        tieLoan_def exampleLoan_def Let_def)
  moreover have "creditMixValue [tieLoan] = Some (1 / 5)"
    by (simp add: creditMixValue_def)
  moreover have "accountStatusValue [tieLoan] = Some 3"
    by (simp add: accountStatusValue_def jsDivide_def statusWeights_def tieLoan_def
        exampleLoan_def)
  moreover have "min (max (jsRound (300 + (0 * (4 / 10) * 550 + 19 / 220 * (2 / 10) * 550
                              + 1 / 5 * (1 / 10) * 550 + 3 * (3 / 10) * 550))) 300) 850
                  = (816::int)"
    by (simp add: jsRound_def floor_eq_iff)
  ultimately show ?thesis
    using scoreD_tieLoan by blast
qed

subsection \<open>The account-status factor\<close>

text \<open>
  For every non-empty list of loans the account-status factor, read over exact numbers,
  is the mean over the loans of the contribution by status: 3 for Active, minus 10 for
  Defaulted, 1 for Pending, and 0 for Approved, Rejected and Completed. The table's
  entry of 5 has the key \<open>Paid\<close>. The mean can be negative: one defaulted loan gives
  minus 10.
\<close>

lemma accountStatusValue_mean:
  "(loans \<noteq> [] \<longrightarrow>
      accountStatusValue loans =
        Some (sum_list (map (\<lambda>l. statusContribution (status l)) loans)
              / of_nat (length loans)))
   \<and> map_of statusWeights ''Paid'' = Some 5
   \<and> accountStatusValue [defaultedLoan] = Some (- 10)"
proof (intro conjI impI)
  assume "loans \<noteq> []"
  then show "accountStatusValue loans =
        Some (sum_list (map (\<lambda>l. statusContribution (status l)) loans)
              / of_nat (length loans))"
    by (simp add: accountStatusValue_sum jsDivide_length)
next
  show "map_of statusWeights ''Paid'' = Some 5"
    by (simp add: statusWeights_def)
next
  show "accountStatusValue [defaultedLoan] = Some (- 10)"
    by (simp add: accountStatusValue_sum jsDivide_def defaultedLoan_def)
qed

lemma statusName_not_Paid: "statusName s \<noteq> ''Paid''"
  by (cases s) simp_all

text \<open>
  Claim C6 at a completed loan. The table \<open>statusWeights\<close> rewards the key
  \<open>Paid\<close> with 5, and no status of the schema is spelled \<open>Paid\<close>: the status of
  a loan that has been paid off is \<open>Completed\<close>, which the table does not have. So
  the factor of one completed loan is 0, below the 3 of an active loan, and no loan
  ever gets the 5.
\<close>

theorem accountStatus_completed:
  "accountStatusValue [completedLoan] = Some 0
   \<and> accountStatusValueD [completedLoan] = Some 0
   \<and> accountStatusValue [activeLoan] = Some 3
   \<and> map_of statusWeights ''Paid'' = Some 5
   \<and> map_of statusWeights (statusName Completed) = None
   \<and> (\<forall>s. statusName s \<noteq> ''Paid'')"
  by (simp add: accountStatusValue_def accountStatusValueD_def jsDivide_def fdivide_def
      fadd_def toDouble_zero statusWeights_def completedLoan_def activeLoan_def
      exampleLoan_def statusName_not_Paid)

text \<open>
  Claim C7. For every non-empty list of loans the payment-history factor is the mean
  over the loans of the ratio of entries with status \<open>paid\<close> to all entries, and
  a loan without entries has the ratio 0.
\<close>

theorem paymentHistoryValue_mean:
  "(loans \<noteq> [] \<longrightarrow>
      paymentHistoryValue loans =
        Some (sum_list (map historyRatio loans) / of_nat (length loans)))
   \<and> (orEmpty (paymentHistory l) = [] \<longrightarrow> historyRatio l = 0)"
  by (simp add: paymentHistoryValue_sum jsDivide_length historyRatio_def)

text \<open>A loan with one of two payments paid and a loan without history: mean 1/4.\<close>

theorem paymentHistoryValue_mean_witness:
  "[carLoan, exampleLoan] \<noteq> [] \<and> orEmpty (paymentHistory exampleLoan) = []
   \<and> historyRatio exampleLoan = 0
   \<and> paymentHistoryValue [carLoan, exampleLoan] = Some (1 / 4)"
  using paymentHistoryValue_mean [of "[carLoan, exampleLoan]" exampleLoan]
  by (simp add: historyRatio_def orEmpty_def carLoan_def exampleLoan_def)

text \<open>
  Claim C8. For a user without loans the handler answers with the fixed report: score 0,
  range \<open>No Credit History\<close>, no accounts, utilization \<open>0%\<close>, and zero debt,
  available credit and open accounts. The score is not the scoring function's: on the
  empty list that function has no finite result.
\<close>

theorem getCreditReport_empty:
  "getCreditReport now [] =
     \<lparr>creditScore = Some 0, scoreRange = ''No Credit History'', accounts = [],
      inquiries = Some [], publicRecords = Some [], creditUtilization = ''0%'',
      totalDebt = 0, availableCredit = 0, openAccounts = 0, lastUpdated = None\<rparr>
   \<and> calculateCreditScore [] = None"
  by (simp add: getCreditReport_def calculateCreditScore_def weightedScore_def
      scoreFactors_def paymentHistoryValue_def jsDivide_def)

text \<open>
  Claim C9. The two scoring functions are not equal: for the pending example loan alone
  the first gives 586 and the second 300.
\<close>

theorem scoring_functions_differ:
  "calculateCreditScore [exampleLoan] = Some 586
   \<and> calculateCreditScore2 [exampleLoan] = Some 300
   \<and> (\<exists>loans. calculateCreditScore loans \<noteq> calculateCreditScore2 loans)"
proof -
  have "calculateCreditScore [exampleLoan] \<noteq> calculateCreditScore2 [exampleLoan]"
    by (simp add: score_exampleLoan score2_exampleLoan)
  then show ?thesis
    using score_exampleLoan score2_exampleLoan by blast
qed

lemma availableContribution_nonneg: "0 \<le> availableContribution l"
  by (simp add: availableContribution_def)

text \<open>
  Claim C10. The available credit of the report is the sum of the loans' contributions,
  each of which is at least zero, so it is at least zero; an active revolving account
  that owes 5000 on a limit of 2000 contributes zero.
\<close>

theorem availableCredit_nonneg:
  "availableCredit (getCreditReport now loans) = sum_list (map availableContribution loans)
   \<and> 0 \<le> availableContribution l
   \<and> 0 \<le> availableCredit (getCreditReport now loans)
   \<and> availableCredit (getCreditReport now [overdrawnLoan]) = 0"
proof -
  have a: "availableCredit (getCreditReport now loans) =
             sum_list (map availableContribution loans)"
    by (cases loans) (simp_all add: getCreditReport_def availableCreditOf_sum)
  have "0 \<le> sum_list (map availableContribution loans)"
    by (rule sum_list_nonneg) (auto simp: availableContribution_nonneg)
  moreover have "availableCredit (getCreditReport now [overdrawnLoan]) = 0"
    by (simp add: getCreditReport_def availableCreditOf_sum availableContribution_def
        overdrawnLoan_def orZero_def)
  ultimately show ?thesis
    using a availableContribution_nonneg by simp
qed

end
